theory Spec2Isabelle
  imports Main "HOL-Library.Word" "HOL-Library.AList"
begin

section \<open>Device-authorization flow of superbox.ai: the session store and its handlers\<close>

text \<open>
  The development embeds the device-flow part of the authentication handlers
  (package \<open>handlers\<close>: the three package-level maps, the code generators, the store
  operations and the handlers \<open>deviceStart\<close>, \<open>devicePoll\<close>, \<open>deviceSubmit\<close>,
  \<open>callbackGoogle\<close>, \<open>callbackGitHub\<close>) and the \<open>DeviceSession\<close> struct of package
  \<open>models\<close>.

  Conventions of the embedding.
  \<^item> Go strings are byte strings: \<open>string\<close> (a list of 8-bit \<open>char\<close>).
  \<^item> The timestamps are \<open>float64(time.Now().Unix())\<close>, whole numbers of seconds; they
    are \<open>int\<close> here. Every \<open>time.Now()\<close> the source reads is an argument of the
    function that reads it, so two readings inside one handler may differ.
  \<^item> The bytes that \<open>crypto/rand\<close> puts into a buffer are an argument (a list of
    \<open>8 word\<close>) of the generator that owns the buffer.
  \<^item> A Go map is an association list with the operations of \<open>AList\<close>: \<open>m[k] = v\<close> is
    \<open>AList.update\<close>, \<open>delete(m, k)\<close> is \<open>AList.delete\<close>, a lookup is \<open>map_of\<close>.
    \<open>range\<close> over a map visits the entries in the order of the list (Go leaves the
    order open).
  \<^item> The maps hold pointers to sessions; every pointer is stored under exactly one key
    (\<open>storeSession\<close>), so a mutation through the pointer is an update at that key.
  \<^item> The three package-level maps are the fields of the record \<open>store\<close>, passed in
    and returned; the mutex is not modelled: a function of this theory is what the
    source does when nothing else runs in between.
\<close>

subsection \<open>Strings\<close>

text \<open>
  \<open>strings.ToUpper\<close> and \<open>strings.ToLower\<close> on a string of ASCII bytes change
  exactly the bytes \<open>a..z\<close> (\<open>A..Z\<close>) by \<open>'a' - 'A'\<close>. On a string with a byte
  \<open>\<ge> 0x80\<close> the library maps Unicode code points instead; that path is not modelled,
  and the theorems about case mapping assume \<open>isASCII\<close>.
\<close>

definition isASCII :: "string \<Rightarrow> bool" where
  "isASCII s = list_all (\<lambda>c. (of_char c :: nat) < 128) s"

definition upperByte :: "char \<Rightarrow> char" where
  "upperByte c =
     (let n = (of_char c :: nat) in if 97 \<le> n \<and> n \<le> 122 then char_of (n - 32) else c)"

definition lowerByte :: "char \<Rightarrow> char" where
  "lowerByte c =
     (let n = (of_char c :: nat) in if 65 \<le> n \<and> n \<le> 90 then char_of (n + 32) else c)"

definition ToUpper :: "string \<Rightarrow> string" where
  "ToUpper s = map upperByte s"

definition ToLower :: "string \<Rightarrow> string" where
  "ToLower s = map lowerByte s"

text \<open>\<open>strings.ReplaceAll(s, old, "")\<close> for a one-byte \<open>old\<close>: every such byte goes.\<close>

definition removeByte :: "char \<Rightarrow> string \<Rightarrow> string" where
  "removeByte b s = filter (\<lambda>c. c \<noteq> b) s"

definition normalizeCode :: "string \<Rightarrow> string" where
  "normalizeCode code = ToUpper (removeByte (CHR '' '') (removeByte (CHR ''-'') code))"


subsection \<open>Code generators\<close>

definition alphabet :: string where
  "alphabet = ''ABCDEFGHIJKLMNOPQRSTUVWXYZ0123456789''"

text \<open>\<open>b\<close> is the 8-byte buffer after \<open>rand.Read\<close>.\<close>

definition generateUserCode :: "8 word list \<Rightarrow> string" where
  "generateUserCode b =
     (let raw = map (\<lambda>v. alphabet ! (unat v mod length alphabet)) b
      in take 4 raw @ ''-'' @ drop 4 raw)"

definition encodeURL :: string where
  "encodeURL = ''ABCDEFGHIJKLMNOPQRSTUVWXYZabcdefghijklmnopqrstuvwxyz0123456789-_''"

text \<open>\<open>base64.URLEncoding.EncodeToString\<close>: the URL alphabet, padded with \<open>=\<close>.\<close>

fun EncodeToString :: "8 word list \<Rightarrow> string" where
  "EncodeToString (a # b # c # rest) =
     [encodeURL ! (unat a div 4),
      encodeURL ! ((unat a mod 4) * 16 + unat b div 16),
      encodeURL ! ((unat b mod 16) * 4 + unat c div 64),
      encodeURL ! (unat c mod 64)] @ EncodeToString rest"
| "EncodeToString [a, b] =
     [encodeURL ! (unat a div 4),
      encodeURL ! ((unat a mod 4) * 16 + unat b div 16),
      encodeURL ! ((unat b mod 16) * 4),
      CHR ''='']"
| "EncodeToString [a] =
     [encodeURL ! (unat a div 4), encodeURL ! ((unat a mod 4) * 16), CHR ''='', CHR ''='']"
| "EncodeToString [] = []"

text \<open>\<open>b\<close> is the 40-byte buffer after \<open>rand.Read\<close>.\<close>

definition generateDeviceCode :: "8 word list \<Rightarrow> string" where
  "generateDeviceCode b = EncodeToString b"

subsection \<open>Sessions and the store\<close>

text \<open>
  A value of the token bundle (\<open>interface{}\<close>): the handlers put strings and one
  \<open>int\<close> into it.
\<close>

datatype jval = JString string | JInt int

text \<open>\<open>Tokens\<close> is a Go map; \<open>None\<close> is the nil map of a session without tokens.\<close>

record DeviceSession =
  DeviceCode :: string
  UserCode :: string
  NormalizedUserCode :: string
  Provider :: string
  State :: string
  Status :: string
  CreatedAt :: int
  ExpiresAt :: int
  CompletedAt :: int
  Tokens :: "(string \<times> jval) list option"
  Error :: string
  LastTouched :: int

record store =
  deviceSessions :: "(string \<times> DeviceSession) list"
  stateIndex :: "(string \<times> string) list"
  userIndex :: "(string \<times> string) list"

definition emptyStore :: store where
  "emptyStore = \<lparr>deviceSessions = [], stateIndex = [], userIndex = []\<rparr>"

definition deviceSessionTTL :: int where
  "deviceSessionTTL = 600"

definition devicePollInterval :: int where
  "devicePollInterval = 5"

text \<open>The lookup \<open>m[k]\<close> of a \<open>map[string]string\<close>: the empty string for a missing key.\<close>

definition index :: "(string \<times> string) list \<Rightarrow> string \<Rightarrow> string" where
  "index m k = (case map_of m k of None \<Rightarrow> [] | Some v \<Rightarrow> v)"

definition storeSession :: "DeviceSession \<Rightarrow> store \<Rightarrow> store" where
  "storeSession session st =
     \<lparr>deviceSessions = AList.update (DeviceCode session) session (deviceSessions st),
      stateIndex = AList.update (State session) (DeviceCode session) (stateIndex st),
      userIndex = AList.update (NormalizedUserCode session) (DeviceCode session) (userIndex st)\<rparr>"

definition removeSession :: "string \<Rightarrow> store \<Rightarrow> store" where
  "removeSession deviceCode st =
     (case map_of (deviceSessions st) deviceCode of
        None \<Rightarrow> st
      | Some session \<Rightarrow>
          \<lparr>deviceSessions = AList.delete deviceCode (deviceSessions st),
           stateIndex = AList.delete (State session) (stateIndex st),
           userIndex = AList.delete (NormalizedUserCode session) (userIndex st)\<rparr>)"

definition getSessionCopy :: "string \<Rightarrow> store \<Rightarrow> DeviceSession option" where
  "getSessionCopy deviceCode st = map_of (deviceSessions st) deviceCode"

text \<open>\<open>now\<close> is the clock reading inside \<open>markSession\<close>.\<close>

definition markSession :: "int \<Rightarrow> string \<Rightarrow> string \<Rightarrow> string \<Rightarrow> store \<Rightarrow> store" where
  "markSession now deviceCode status message st =
     (case map_of (deviceSessions st) deviceCode of
        None \<Rightarrow> st
      | Some session \<Rightarrow>
          (let session' = session\<lparr>Status := status, CompletedAt := now,
                 Error := (if message \<noteq> [] then message else Error session)\<rparr>
           in st\<lparr>deviceSessions := AList.update deviceCode session' (deviceSessions st),
                 stateIndex := AList.delete (State session) (stateIndex st)\<rparr>))"

definition setSessionTokens :: "int \<Rightarrow> string \<Rightarrow> (string \<times> jval) list \<Rightarrow> store \<Rightarrow> store" where
  "setSessionTokens now deviceCode tokens st =
     (case map_of (deviceSessions st) deviceCode of
        None \<Rightarrow> st
      | Some session \<Rightarrow>
          (let session' = session\<lparr>Status := ''complete'', Tokens := Some tokens,
                 CompletedAt := now\<rparr>
           in st\<lparr>deviceSessions := AList.update deviceCode session' (deviceSessions st),
                 stateIndex := AList.delete (State session) (stateIndex st)\<rparr>))"

definition findState :: "string \<Rightarrow> store \<Rightarrow> string" where
  "findState state st = index (stateIndex st) state"

text \<open>The condition under which the loop of \<open>sessionCleanup\<close> collects a session.\<close>

definition sweepable :: "int \<Rightarrow> DeviceSession \<Rightarrow> bool" where
  "sweepable now session =
     (let status = Status session;
          expiresAt = ExpiresAt session;
          completedAt = (if CompletedAt session = 0 then expiresAt else CompletedAt session)
      in expiresAt \<le> now \<or>
         (status = ''complete'' \<or> status = ''error'' \<or> status = ''expired'') \<and>
           now - completedAt > 120)"

definition expiredCodes :: "int \<Rightarrow> store \<Rightarrow> string list" where
  "expiredCodes now st = map fst (filter (\<lambda>(deviceCode, session). sweepable now session) (deviceSessions st))"

definition sessionCleanup :: "int \<Rightarrow> store \<Rightarrow> store" where
  "sessionCleanup now st = fold removeSession (expiredCodes now st) st"

subsection \<open>Requests, responses and configuration\<close>

text \<open>The client credentials read from the environment in \<open>init\<close>.\<close>

record config =
  googleClientID :: string
  googleClientSecret :: string
  githubClientID :: string
  githubClientSecret :: string

text \<open>What the handlers read from the \<open>gin.Context\<close> besides the body or form.\<close>

record ginContext =
  XForwardedProto :: string
  HostHeader :: string
  RequestHost :: string

text \<open>The request bodies; the fields carry the names of their JSON tags.\<close>

record AuthDeviceStartRequest =
  provider :: string

record AuthDevicePollRequest =
  device_code :: string

record AuthResponse =
  IDToken :: string
  RefreshToken :: string
  ExpiresIn :: int
  Email :: "string option"
  LocalID :: "string option"

text \<open>
  \<open>JSON status body\<close> is \<open>c.JSON(status, body)\<close>, with \<open>None\<close> for a nil map.
  \<open>Page message code isError showForm\<close> is \<open>renderDevicePage\<close> with these arguments;
  the rendering of the template is not modelled. \<open>Redirect status url params\<close> is
  \<open>c.Redirect(status, url + "?" + params.Encode())\<close>, with the parameters as set.
\<close>

datatype response =
  JSON nat "(string \<times> jval) list option"
| Page string string bool bool
| Redirect nat string "(string \<times> string) list"

definition detail :: "string \<Rightarrow> (string \<times> jval) list option" where
  "detail message = Some [(''detail'', JString message)]"

definition checkProvider :: "config \<Rightarrow> string \<Rightarrow> string option" where
  "checkProvider cfg p =
     (if p = ''google'' \<and> (googleClientID cfg = [] \<or> googleClientSecret cfg = [])
      then Some ''google OAuth is not configured on the server''
      else if p = ''github'' \<and> (githubClientID cfg = [] \<or> githubClientSecret cfg = [])
      then Some ''github OAuth is not configured on the server''
      else None)"

definition scheme :: "ginContext \<Rightarrow> string" where
  "scheme c = (if XForwardedProto c = ''https'' then ''https'' else ''http'')"

definition host :: "ginContext \<Rightarrow> string" where
  "host c = (if HostHeader c = [] then RequestHost c else HostHeader c)"

subsection \<open>URL escaping\<close>

definition upperhex :: string where
  "upperhex = ''0123456789ABCDEF''"

text \<open>\<open>shouldEscape\<close> of \<open>net/url\<close> in the mode of a query component.\<close>

definition shouldEscape :: "char \<Rightarrow> bool" where
  "shouldEscape c =
     (let n = (of_char c :: nat)
      in \<not> ((97 \<le> n \<and> n \<le> 122) \<or> (65 \<le> n \<and> n \<le> 90) \<or> (48 \<le> n \<and> n \<le> 57) \<or>
             c = CHR ''-'' \<or> c = CHR ''_'' \<or> c = CHR ''.'' \<or> c = CHR ''~''))"

definition escapeByte :: "char \<Rightarrow> string" where
  "escapeByte c =
     (if c = CHR '' '' then ''+''
      else if shouldEscape c
      then [CHR ''%'', upperhex ! ((of_char c :: nat) div 16), upperhex ! ((of_char c :: nat) mod 16)]
      else [c])"

definition QueryEscape :: "string \<Rightarrow> string" where
  "QueryEscape s = concat (map escapeByte s)"

definition ishex :: "char \<Rightarrow> bool" where
  "ishex c =
     (let n = (of_char c :: nat)
      in (48 \<le> n \<and> n \<le> 57) \<or> (97 \<le> n \<and> n \<le> 102) \<or> (65 \<le> n \<and> n \<le> 70))"

definition unhex :: "char \<Rightarrow> nat" where
  "unhex c =
     (let n = (of_char c :: nat)
      in if 48 \<le> n \<and> n \<le> 57 then n - 48
         else if 97 \<le> n \<and> n \<le> 102 then n - 97 + 10
         else if 65 \<le> n \<and> n \<le> 70 then n - 65 + 10
         else 0)"

text \<open>\<open>url.QueryUnescape\<close>; \<open>None\<close> is its error (a \<open>%\<close> without two hex digits).\<close>

fun QueryUnescape :: "string \<Rightarrow> string option" where
  "QueryUnescape [] = Some []"
| "QueryUnescape (c # cs) =
     (if c = CHR ''%'' then
        (case cs of
           a # b # rest \<Rightarrow>
             (if ishex a \<and> ishex b
              then map_option ((#) (char_of (unhex a * 16 + unhex b))) (QueryUnescape rest)
              else None)
         | _ \<Rightarrow> None)
      else if c = CHR ''+'' then map_option ((#) (CHR '' '')) (QueryUnescape cs)
      else map_option ((#) c) (QueryUnescape cs))"

subsection \<open>The handlers of the device flow\<close>

text \<open>
  \<open>body\<close> is \<open>None\<close> when \<open>ShouldBindJSON\<close> fails. \<open>tSweep\<close> is the clock reading of
  \<open>sessionCleanup\<close>, \<open>now\<close> the reading of the handler; \<open>rDevice\<close>, \<open>rUser\<close> and
  \<open>rState\<close> are the three random buffers (40, 8 and 32 bytes).
\<close>

definition deviceStart ::
  "config \<Rightarrow> ginContext \<Rightarrow> AuthDeviceStartRequest option \<Rightarrow> int \<Rightarrow> int \<Rightarrow>
   8 word list \<Rightarrow> 8 word list \<Rightarrow> 8 word list \<Rightarrow> store \<Rightarrow> store \<times> response" where
  "deviceStart cfg c body tSweep now rDevice rUser rState st0 =
     (let st = sessionCleanup tSweep st0 in
      case body of
        None \<Rightarrow> (st, JSON 400 (detail ''Invalid request''))
      | Some req \<Rightarrow>
          (let p = ToLower (provider req) in
           if p \<noteq> ''google'' \<and> p \<noteq> ''github''
           then (st, JSON 400 (detail ''Unsupported provider''))
           else
             (case checkProvider cfg p of
                Some err \<Rightarrow> (st, JSON 500 (detail err))
              | None \<Rightarrow>
                  (let deviceCode = generateDeviceCode rDevice;
                       userCode = generateUserCode rUser;
                       normalized = normalizeCode userCode;
                       state = EncodeToString rState;
                       session = \<lparr>DeviceCode = deviceCode, UserCode = userCode,
                                  NormalizedUserCode = normalized, Provider = p,
                                  State = state, Status = ''pending'', CreatedAt = now,
                                  ExpiresAt = now + deviceSessionTTL, CompletedAt = 0,
                                  Tokens = None, Error = [], LastTouched = 0\<rparr>;
                       verificationURI = scheme c @ ''://'' @ host c @ ''/api/v1/auth/device'';
                       verificationURIComplete =
                         verificationURI @ ''?code='' @ QueryEscape userCode
                   in (storeSession session st,
                       JSON 200 (Some
                         [(''device_code'', JString deviceCode),
                          (''user_code'', JString userCode),
                          (''verification_uri'', JString verificationURI),
                          (''verification_uri_complete'', JString verificationURIComplete),
                          (''interval'', JInt devicePollInterval),
                          (''expires_in'', JInt deviceSessionTTL)]))))))"

text \<open>\<open>tMark\<close> is the clock reading of \<open>markSession\<close> in the branch that calls it.\<close>

definition devicePoll ::
  "AuthDevicePollRequest option \<Rightarrow> int \<Rightarrow> int \<Rightarrow> int \<Rightarrow> store \<Rightarrow> store \<times> response" where
  "devicePoll body tSweep now tMark st0 =
     (let st = sessionCleanup tSweep st0 in
      case body of
        None \<Rightarrow> (st, JSON 400 (detail ''Invalid request''))
      | Some req \<Rightarrow>
          (case getSessionCopy (device_code req) st of
             None \<Rightarrow> (st, JSON 404 (detail ''Unknown device code''))
           | Some session \<Rightarrow>
               if ExpiresAt session \<le> now \<and> Status session = ''pending''
               then (removeSession (device_code req)
                       (markSession tMark (device_code req) ''expired'' [] st),
                     JSON 410 (detail ''Device authorization expired''))
               else
                 (let status = Status session in
                  if status = ''pending'' \<or> status = ''authorizing''
                  then (st, JSON 202 (Some [(''status'', JString ''pending'')]))
                  else if status = ''complete''
                  then (removeSession (device_code req) st, JSON 200 (Tokens session))
                  else if status = ''error''
                  then (removeSession (device_code req) st,
                        JSON 400 (detail (if Error session = [] then ''Authorization failed''
                                          else Error session)))
                  else if status = ''expired''
                  then (removeSession (device_code req) st,
                        JSON 410 (detail ''Device authorization expired''))
                  else (removeSession (device_code req) st,
                        JSON 400 (detail ''Invalid device session state'')))))"

text \<open>
  The critical section of \<open>deviceSubmit\<close> (between \<open>Lock\<close> and \<open>Unlock\<close>): the
  lookup through the user index and the mutation of the session found. It returns
  the store, \<open>deviceCode\<close> and \<open>session\<close> (\<open>None\<close> for nil).
\<close>

definition deviceSubmitLocked ::
  "int \<Rightarrow> string \<Rightarrow> store \<Rightarrow> store \<times> string \<times> DeviceSession option" where
  "deviceSubmitLocked now normalized st =
     (let deviceCode = index (userIndex st) normalized in
      if deviceCode \<noteq> [] then
        (case map_of (deviceSessions st) deviceCode of
           None \<Rightarrow> (st, deviceCode, None)
         | Some session \<Rightarrow>
             (let s1 = (if ExpiresAt session \<le> now then session\<lparr>Status := ''expired''\<rparr>
                        else session);
                  s2 = s1\<lparr>LastTouched := now\<rparr>;
                  s3 = (if Status s2 = ''pending'' then s2\<lparr>Status := ''authorizing''\<rparr> else s2)
              in (st\<lparr>deviceSessions := AList.update deviceCode s3 (deviceSessions st)\<rparr>,
                  deviceCode, Some s3)))
      else (st, deviceCode, None))"

text \<open>\<open>code\<close> is the form value; \<open>tMark\<close> the clock reading of \<open>markSession\<close>.\<close>

definition deviceSubmit ::
  "config \<Rightarrow> ginContext \<Rightarrow> string \<Rightarrow> int \<Rightarrow> int \<Rightarrow> store \<Rightarrow> store \<times> response" where
  "deviceSubmit cfg c code now tMark st0 =
     (if code = [] then (st0, Page ''Device code is required'' code True True)
      else
        (case deviceSubmitLocked now (normalizeCode code) st0 of
           (st, deviceCode, None) \<Rightarrow>
             (st, Page ''Invalid or expired device code. Please try again.'' code True True)
         | (st, deviceCode, Some session) \<Rightarrow>
             if deviceCode = []
             then (st, Page ''Invalid or expired device code. Please try again.'' code True True)
             else if Status session = ''expired''
             then (removeSession deviceCode st,
                   Page ''Device code has expired. Restart the login from the CLI.'' code True True)
             else if Status session = ''complete''
             then (st, Page ''This code has already been used. Return to the CLI.'' code True True)
             else if Provider session = ''google''
             then
               (if googleClientID cfg = [] \<or> googleClientSecret cfg = []
                then (markSession tMark deviceCode ''error'' ''Google OAuth not configured'' st,
                      Page ''Google login is not available. Contact support.'' code True True)
                else (st, Redirect 302 ''https://accounts.google.com/o/oauth2/v2/auth''
                        [(''client_id'', googleClientID cfg),
                         (''redirect_uri'',
                          scheme c @ ''://'' @ host c @ ''/api/v1/auth/device/callback/google''),
                         (''response_type'', ''code''),
                         (''scope'', ''openid email profile''),
                         (''state'', State session),
                         (''access_type'', ''offline''),
                         (''prompt'', ''consent'')]))
             else if Provider session = ''github''
             then
               (if githubClientID cfg = [] \<or> githubClientSecret cfg = []
                then (markSession tMark deviceCode ''error'' ''GitHub OAuth not configured'' st,
                      Page ''GitHub login is not available. Contact support.'' code True True)
                else (st, Redirect 302 ''https://github.com/login/oauth/authorize''
                        [(''client_id'', githubClientID cfg),
                         (''redirect_uri'',
                          scheme c @ ''://'' @ host c @ ''/api/v1/auth/device/callback/github''),
                         (''scope'', ''read:user user:email''),
                         (''state'', State session),
                         (''allow_signup'', ''false'')]))
             else (markSession tMark deviceCode ''error'' ''Unsupported provider'' st,
                   Page ''Unsupported provider'' code True True)))"

subsection \<open>The provider callbacks\<close>

text \<open>
  The answer of a provider's token endpoint: \<open>NetError e\<close> when \<open>client.Do\<close> fails
  with the error text \<open>e\<close>, otherwise the status code and the decoded JSON object
  (values that are not strings or whole numbers play no part and are left out).
\<close>

datatype upstream = NetError string | HttpReply nat "(string \<times> jval) list"

text \<open>The type assertion \<open>tokens[key].(string)\<close>.\<close>

definition stringField :: "(string \<times> jval) list \<Rightarrow> string \<Rightarrow> string option" where
  "stringField tokens key = (case map_of tokens key of Some (JString v) \<Rightarrow> Some v | _ \<Rightarrow> None)"

definition authDict :: "AuthResponse \<Rightarrow> string \<Rightarrow> (string \<times> jval) list" where
  "authDict authResp p =
     [(''id_token'', JString (IDToken authResp)),
      (''refresh_token'', JString (RefreshToken authResp)),
      (''expires_in'', JInt (ExpiresIn authResp)),
      (''provider'', JString p)]
     @ (case Email authResp of None \<Rightarrow> [] | Some e \<Rightarrow> [(''email'', JString e)])
     @ (case LocalID authResp of None \<Rightarrow> [] | Some l \<Rightarrow> [(''local_id'', JString l)])"

text \<open>
  \<open>state\<close>, \<open>code\<close> and \<open>errorParam\<close> are the query parameters; \<open>now\<close> is the clock
  reading of the handler and \<open>tDone\<close> that of \<open>markSession\<close> or \<open>setSessionTokens\<close>.
  \<open>reply\<close> is the answer of the provider's token endpoint. \<open>firebase postBody\<close> is
  \<open>firebaseExchange(postBody)\<close> followed by \<open>parseAuthResponse\<close>: the error text, or
  the parsed response of the identity provider, which is outside this development.
\<close>

definition callbackGoogle ::
  "string \<Rightarrow> string \<Rightarrow> string \<Rightarrow> int \<Rightarrow> int \<Rightarrow> upstream \<Rightarrow>
   (string \<Rightarrow> string + AuthResponse) \<Rightarrow> store \<Rightarrow> store \<times> response" where
  "callbackGoogle state code errorParam now tDone reply firebase st =
     (if state = [] then (st, Page ''Missing state parameter'' [] True False)
      else
        (let deviceCode = findState state st in
         case getSessionCopy deviceCode st of
           None \<Rightarrow>
             (st, Page ''Session not found or expired. Return to the CLI and try again.'' [] True False)
         | Some session \<Rightarrow>
             if deviceCode = []
             then (st, Page ''Session not found or expired. Return to the CLI and try again.''
                         [] True False)
             else if ExpiresAt session \<le> now
             then (removeSession deviceCode (markSession tDone deviceCode ''expired'' [] st),
                   Page ''Session has expired. Please restart the login from the CLI.'' [] True False)
             else if errorParam \<noteq> []
             then
               (let message = (case QueryUnescape errorParam of None \<Rightarrow> [] | Some m \<Rightarrow> m)
                in (markSession tDone deviceCode ''error'' message st,
                    Page (''Authorization failed: '' @ message) [] True False))
             else if code = []
             then (markSession tDone deviceCode ''error'' ''Missing authorization code'' st,
                   Page ''Missing authorization code'' [] True False)
             else
               (case reply of
                  NetError e \<Rightarrow>
                    (markSession tDone deviceCode ''error'' e st,
                     Page ''Failed to contact Google. Please try again.'' [] True False)
                | HttpReply status tokens \<Rightarrow>
                    if status \<noteq> 200
                    then (markSession tDone deviceCode ''error'' ''Google authorization failed'' st,
                          Page ''Google authorization failed. Please try again.'' [] True False)
                    else
                      (case stringField tokens ''id_token'' of
                         None \<Rightarrow>
                           (markSession tDone deviceCode ''error'' ''Missing Google ID token'' st,
                            Page ''Google response did not include an ID token'' [] True False)
                       | Some idToken \<Rightarrow>
                           if idToken = []
                           then (markSession tDone deviceCode ''error'' ''Missing Google ID token'' st,
                                 Page ''Google response did not include an ID token'' [] True False)
                           else
                             (case firebase (''id_token='' @ QueryEscape idToken
                                             @ ''&providerId=google.com'') of
                                Inl e \<Rightarrow>
                                  (markSession tDone deviceCode ''error'' e st,
                                   Page ''Firebase authentication failed'' [] True False)
                              | Inr authResp \<Rightarrow>
                                  (setSessionTokens tDone deviceCode (authDict authResp ''google'') st,
                                   Page ''Authentication complete. You may return to the CLI to finish logging in.''
                                     [] False False))))))"

definition callbackGitHub ::
  "string \<Rightarrow> string \<Rightarrow> string \<Rightarrow> int \<Rightarrow> int \<Rightarrow> upstream \<Rightarrow>
   (string \<Rightarrow> string + AuthResponse) \<Rightarrow> store \<Rightarrow> store \<times> response" where
  "callbackGitHub state code errorParam now tDone reply firebase st =
     (if state = [] then (st, Page ''Missing state parameter'' [] True False)
      else
        (let deviceCode = findState state st in
         case getSessionCopy deviceCode st of
           None \<Rightarrow>
             (st, Page ''Session not found or expired. Return to the CLI and try again.'' [] True False)
         | Some session \<Rightarrow>
             if deviceCode = []
             then (st, Page ''Session not found or expired. Return to the CLI and try again.''
                         [] True False)
             else if ExpiresAt session \<le> now
             then (removeSession deviceCode (markSession tDone deviceCode ''expired'' [] st),
                   Page ''Session has expired. Please restart the login from the CLI.'' [] True False)
             else if errorParam \<noteq> []
             then
               (let message = (case QueryUnescape errorParam of None \<Rightarrow> [] | Some m \<Rightarrow> m)
                in (markSession tDone deviceCode ''error'' message st,
                    Page (''Authorization failed: '' @ message) [] True False))
             else if code = []
             then (markSession tDone deviceCode ''error'' ''Missing authorization code'' st,
                   Page ''Missing authorization code'' [] True False)
             else
               (case reply of
                  NetError e \<Rightarrow>
                    (markSession tDone deviceCode ''error'' e st,
                     Page ''Failed to contact GitHub. Please try again.'' [] True False)
                | HttpReply status tokens \<Rightarrow>
                    if status \<noteq> 200
                    then (markSession tDone deviceCode ''error'' ''GitHub authorization failed'' st,
                          Page ''GitHub authorization failed. Please try again.'' [] True False)
                    else
                      (case stringField tokens ''access_token'' of
                         None \<Rightarrow>
                           (markSession tDone deviceCode ''error'' ''Missing GitHub access token'' st,
                            Page ''GitHub response did not include an access token'' [] True False)
                       | Some accessToken \<Rightarrow>
                           if accessToken = []
                           then (markSession tDone deviceCode ''error'' ''Missing GitHub access token'' st,
                                 Page ''GitHub response did not include an access token'' [] True False)
                           else
                             (case firebase (''access_token='' @ QueryEscape accessToken
                                             @ ''&providerId=github.com'') of
                                Inl e \<Rightarrow>
                                  (markSession tDone deviceCode ''error'' e st,
                                   Page ''Firebase authentication failed'' [] True False)
                              | Inr authResp \<Rightarrow>
                                  (setSessionTokens tDone deviceCode (authDict authResp ''github'') st,
                                   Page ''Authentication complete. You may return to the CLI to finish logging in.''
                                     [] False False))))))"

subsection \<open>Requests as events\<close>

text \<open>
  One request to one of the five handlers of the device flow, with everything the
  handler reads from outside the store. \<open>handle\<close> runs the handler; \<open>run\<close> serves a
  list of requests one after the other.
\<close>

datatype event =
  Start ginContext "AuthDeviceStartRequest option" int int "8 word list" "8 word list" "8 word list"
| Poll "AuthDevicePollRequest option" int int int
| Submit ginContext string int int
| Google string string string int int upstream "string \<Rightarrow> string + AuthResponse"
| GitHub string string string int int upstream "string \<Rightarrow> string + AuthResponse"

fun handle :: "config \<Rightarrow> event \<Rightarrow> store \<Rightarrow> store \<times> response" where
  "handle cfg (Start c body tSweep now rDevice rUser rState) st =
     deviceStart cfg c body tSweep now rDevice rUser rState st"
| "handle cfg (Poll body tSweep now tMark) st = devicePoll body tSweep now tMark st"
| "handle cfg (Submit c code now tMark) st = deviceSubmit cfg c code now tMark st"
| "handle cfg (Google state code errorParam now tDone reply firebase) st =
     callbackGoogle state code errorParam now tDone reply firebase st"
| "handle cfg (GitHub state code errorParam now tDone reply firebase) st =
     callbackGitHub state code errorParam now tDone reply firebase st"

fun run :: "config \<Rightarrow> event list \<Rightarrow> store \<Rightarrow> store" where
  "run cfg [] st = st"
| "run cfg (e # es) st = run cfg es (fst (handle cfg e st))"

text \<open>The responses of the requests of \<open>run\<close>, in order.\<close>

fun responses :: "config \<Rightarrow> event list \<Rightarrow> store \<Rightarrow> response list" where
  "responses cfg [] st = []"
| "responses cfg (e # es) st = snd (handle cfg e st) # responses cfg es (fst (handle cfg e st))"

text \<open>A start request that draws \<open>k\<close> as its device code.\<close>

fun createsCode :: "string \<Rightarrow> event \<Rightarrow> bool" where
  "createsCode k (Start c body tSweep now rDevice rUser rState) = (generateDeviceCode rDevice = k)"
| "createsCode k e = False"

text \<open>\<open>createdAt\<close> and \<open>expiresAt\<close> of the session stored under \<open>k\<close>, if there is one.\<close>

definition deadline :: "store \<Rightarrow> string \<Rightarrow> (int \<times> int) option" where
  "deadline st k = map_option (\<lambda>s. (CreatedAt s, ExpiresAt s)) (map_of (deviceSessions st) k)"

subsection \<open>Invariants of the store\<close>





subsection \<open>The specification's reading of \<open>normalize\<close>\<close>


subsection \<open>A scenario\<close>

text \<open>
  A server with both providers configured, one start request at time 0 with fixed
  random buffers, the human's submission at time 10 and a successful Google callback.
\<close>

definition exampleConfig :: config where
  "exampleConfig = \<lparr>googleClientID = ''gid'', googleClientSecret = ''gsecret'',
     githubClientID = ''hid'', githubClientSecret = ''hsecret''\<rparr>"

definition exampleContext :: ginContext where
  "exampleContext =
     \<lparr>XForwardedProto = ''https'', HostHeader = [], RequestHost = ''superbox.example''\<rparr>"

definition rDevice1 :: "8 word list" where
  "rDevice1 = replicate 40 0"


definition rUser1 :: "8 word list" where
  "rUser1 = [0, 1, 2, 3, 26, 27, 28, 29]"

definition rState1 :: "8 word list" where
  "rState1 = replicate 32 1"


definition device1 :: string where
  "device1 = generateDeviceCode rDevice1"


definition pollDevice1 :: "AuthDevicePollRequest option" where
  "pollDevice1 = Some \<lparr>device_code = device1\<rparr>"

definition startGoogle :: event where
  "startGoogle =
     Start exampleContext (Some \<lparr>provider = ''Google''\<rparr>) 0 0 rDevice1 rUser1 rState1"

definition submitCode :: event where
  "submitCode = Submit exampleContext ''abcd 0123'' 10 10"

definition exampleAuth :: AuthResponse where
  "exampleAuth = \<lparr>IDToken = ''id'', RefreshToken = ''refresh'', ExpiresIn = 3600,
     Email = Some ''a@b.c'', LocalID = None\<rparr>"

definition googleDone :: "int \<Rightarrow> event" where
  "googleDone t =
     Google (EncodeToString rState1) ''authcode'' [] t t
       (HttpReply 200 [(''id_token'', JString ''tok'')]) (\<lambda>postBody. Inr exampleAuth)"

definition storePending :: store where
  "storePending = run exampleConfig [startGoogle] emptyStore"

definition storeComplete :: "int \<Rightarrow> store" where
  "storeComplete t = run exampleConfig [startGoogle, submitCode, googleDone t] emptyStore"







text \<open>The session of \<open>storePending\<close>, and the same session once completed at \<open>t\<close>.\<close>

definition session1 :: DeviceSession where
  "session1 =
     \<lparr>DeviceCode = device1, UserCode = generateUserCode rUser1,
      NormalizedUserCode = normalizeCode (generateUserCode rUser1), Provider = ''google'',
      State = EncodeToString rState1, Status = ''pending'', CreatedAt = 0, ExpiresAt = 600,
      CompletedAt = 0, Tokens = None, Error = [], LastTouched = 0\<rparr>"

definition session1Done :: "int \<Rightarrow> DeviceSession" where
  "session1Done t =
     session1\<lparr>Status := ''complete'', Tokens := Some (authDict exampleAuth ''google''),
       CompletedAt := t, LastTouched := 10\<rparr>"

section \<open>Properties\<close>

subsection \<open>Association lists\<close>

lemma delete_absent: "map_of al k = None \<Longrightarrow> AList.delete k al = al"
  by (induction al) (auto split: if_splits)

lemma map_of_filter_keys:
  "map_of (filter (\<lambda>p. fst p \<notin> K) al) k = (if k \<in> K then None else map_of al k)"
  by (induction al) auto

subsection \<open>The sweep\<close>

lemma deviceSessions_removeSession:
  "deviceSessions (removeSession k st) = AList.delete k (deviceSessions st)"
  by (simp add: removeSession_def delete_absent split: option.splits)

lemma deviceSessions_fold_remove:
  "deviceSessions (fold removeSession ks st) =
     filter (\<lambda>p. fst p \<notin> set ks) (deviceSessions st)"
proof (induction ks arbitrary: st)
  case Nil
  then show ?case by simp
next
  case (Cons k ks)
  have "filter (\<lambda>p. fst p \<notin> set ks) (AList.delete k (deviceSessions st)) =
        filter (\<lambda>p. fst p \<notin> set (k # ks)) (deviceSessions st)"
    by (auto simp: AList.delete_eq intro: filter_cong)
  then show ?case
    by (simp add: Cons.IH deviceSessions_removeSession)
qed

lemma mem_expiredCodes:
  "distinct (map fst (deviceSessions st)) \<Longrightarrow>
   k \<in> set (expiredCodes now st) \<longleftrightarrow>
     (\<exists>s. map_of (deviceSessions st) k = Some s \<and> sweepable now s)"
  by (force simp: expiredCodes_def)

lemma sweep_lookup:
  assumes "distinct (map fst (deviceSessions st))"
  shows "map_of (deviceSessions (sessionCleanup now st)) k =
     (case map_of (deviceSessions st) k of
        None \<Rightarrow> None
      | Some s \<Rightarrow> if sweepable now s then None else Some s)"
proof -
  have "map_of (deviceSessions (sessionCleanup now st)) k =
        (if k \<in> set (expiredCodes now st) then None else map_of (deviceSessions st) k)"
    unfolding sessionCleanup_def deviceSessions_fold_remove by (rule map_of_filter_keys)
  then show ?thesis
    using mem_expiredCodes [OF assms, of k now] by (auto split: option.splits)
qed

subsection \<open>The scenario, evaluated\<close>


lemma storeComplete_20:
  "storeComplete 20 =
     \<lparr>deviceSessions = [(device1, session1Done 20)], stateIndex = [],
      userIndex = [(normalizeCode (generateUserCode rUser1), device1)]\<rparr>"
  by code_simp

subsection \<open>Normalisation of user codes\<close>




















subsection \<open>What the sweep removes\<close>

text \<open>
  C2, as stated, fails: a session completed at 590 is inside the 120 seconds at time
  600, and the sweep at 600 removes it, because its \<open>expiresAt\<close> (600) has passed.
\<close>

theorem sweep_ignores_grace_after_expiry_counterexample:
  "map_of (deviceSessions (storeComplete 590)) device1 = Some (session1Done 590) \<and>
   Status (session1Done 590) = ''complete'' \<and>
   600 - CompletedAt (session1Done 590) \<le> 120 \<and>
   map_of (deviceSessions (sessionCleanup 600 (storeComplete 590))) device1 = None"
  by code_simp

text \<open>
  C2, amended: the sweep removes a session exactly when its \<open>expiresAt\<close> has passed
  (\<open>expiresAt \<le> now\<close>), whatever its status, or when it is terminal and its
  \<open>completedAt\<close> (its \<open>expiresAt\<close> when \<open>completedAt\<close> is unset) is more than 120 seconds
  in the past; every other session stays as it is. So a pending session goes only when
  its \<open>expiresAt\<close> has passed, and a complete session whose \<open>completedAt\<close> is at most 120
  seconds in the past stays as long as its \<open>expiresAt\<close> has not passed.
\<close>

theorem sessionCleanup_removes_exactly:
  assumes "distinct (map fst (deviceSessions st))"
    and "map_of (deviceSessions st) k = Some s"
  shows "map_of (deviceSessions (sessionCleanup now st)) k =
           (if ExpiresAt s \<le> now \<or>
               (Status s = ''complete'' \<or> Status s = ''error'' \<or> Status s = ''expired'') \<and>
                 now - (if CompletedAt s = 0 then ExpiresAt s else CompletedAt s) > 120
            then None else Some s) \<and>
         (Status s = ''pending'' \<longrightarrow>
            (map_of (deviceSessions (sessionCleanup now st)) k = None \<longleftrightarrow> ExpiresAt s \<le> now)) \<and>
         (Status s = ''complete'' \<longrightarrow> now - CompletedAt s \<le> 120 \<longrightarrow> now < ExpiresAt s \<longrightarrow>
            map_of (deviceSessions (sessionCleanup now st)) k = Some s)"
  using assms(2) by (simp add: sweep_lookup [OF assms(1)] sweepable_def Let_def)

theorem sessionCleanup_removes_exactly_witness:
  "distinct (map fst (deviceSessions (storeComplete 20))) \<and>
   map_of (deviceSessions (storeComplete 20)) device1 = Some (session1Done 20) \<and>
   Status (session1Done 20) = ''complete'' \<and>
   100 - CompletedAt (session1Done 20) \<le> 120 \<and> 100 < ExpiresAt (session1Done 20) \<and>
   map_of (deviceSessions (sessionCleanup 100 (storeComplete 20))) device1 =
     Some (session1Done 20)"
proof -
  have d: "distinct (map fst (deviceSessions (storeComplete 20)))"
    by (simp add: storeComplete_20)
  have m: "map_of (deviceSessions (storeComplete 20)) device1 = Some (session1Done 20)"
    by (simp add: storeComplete_20)
  show ?thesis
    using d m sessionCleanup_removes_exactly [OF d m, of 100]
    by (simp add: session1Done_def session1_def)
qed

subsection \<open>The store operations, seen through the primary map\<close>

lemma removeSession_sessions:
  "map_of (deviceSessions (removeSession k' st)) k =
     (if k = k' then None else map_of (deviceSessions st) k)"
  by (simp add: deviceSessions_removeSession AList.delete_conv')

lemma markSession_sessions:
  "map_of (deviceSessions (markSession now k' status message st)) k =
     (if k = k'
      then map_option (\<lambda>s. s\<lparr>Status := status, CompletedAt := now,
             Error := (if message \<noteq> [] then message else Error s)\<rparr>) (map_of (deviceSessions st) k)
      else map_of (deviceSessions st) k)"
  by (simp add: markSession_def Let_def AList.update_conv' split: option.splits)

lemma setSessionTokens_sessions:
  "map_of (deviceSessions (setSessionTokens now k' tokens st)) k =
     (if k = k'
      then map_option (\<lambda>s. s\<lparr>Status := ''complete'', Tokens := Some tokens, CompletedAt := now\<rparr>)
             (map_of (deviceSessions st) k)
      else map_of (deviceSessions st) k)"
  by (simp add: setSessionTokens_def Let_def AList.update_conv' split: option.splits)

lemma storeSession_sessions:
  "map_of (deviceSessions (storeSession s st)) k =
     (if k = DeviceCode s then Some s else map_of (deviceSessions st) k)"
  by (simp add: storeSession_def AList.update_conv')

lemma sessionCleanup_sessions:
  "map_of (deviceSessions (sessionCleanup now st)) k =
     (if k \<in> set (expiredCodes now st) then None else map_of (deviceSessions st) k)"
  unfolding sessionCleanup_def deviceSessions_fold_remove by (rule map_of_filter_keys)


lemma poll_survivor:
  assumes "distinct (map fst (deviceSessions st))"
    and "map_of (deviceSessions st) k = Some s"
    and "\<not> sweepable tSweep s"
  shows "getSessionCopy k (sessionCleanup tSweep st) = Some s"
  using assms by (simp add: getSessionCopy_def sweep_lookup)


lemma devicePoll_store:
  "fst (devicePoll body tSweep now tMark st) = sessionCleanup tSweep st \<or>
   (\<exists>dc. fst (devicePoll body tSweep now tMark st) =
       removeSession dc (markSession tMark dc ''expired'' [] (sessionCleanup tSweep st))) \<or>
   (\<exists>dc. fst (devicePoll body tSweep now tMark st) = removeSession dc (sessionCleanup tSweep st))"
  by (auto simp: devicePoll_def Let_def split: option.splits)

lemma callbackGoogle_store:
  "fst (callbackGoogle state code errorParam now tDone reply firebase st) = st \<or>
   (\<exists>dc. fst (callbackGoogle state code errorParam now tDone reply firebase st) =
       removeSession dc (markSession tDone dc ''expired'' [] st)) \<or>
   (\<exists>dc m. fst (callbackGoogle state code errorParam now tDone reply firebase st) =
       markSession tDone dc ''error'' m st) \<or>
   (\<exists>dc toks. fst (callbackGoogle state code errorParam now tDone reply firebase st) =
       setSessionTokens tDone dc toks st)"
  by (auto simp: callbackGoogle_def Let_def split: option.splits upstream.splits sum.splits)

lemma callbackGitHub_store:
  "fst (callbackGitHub state code errorParam now tDone reply firebase st) = st \<or>
   (\<exists>dc. fst (callbackGitHub state code errorParam now tDone reply firebase st) =
       removeSession dc (markSession tDone dc ''expired'' [] st)) \<or>
   (\<exists>dc m. fst (callbackGitHub state code errorParam now tDone reply firebase st) =
       markSession tDone dc ''error'' m st) \<or>
   (\<exists>dc toks. fst (callbackGitHub state code errorParam now tDone reply firebase st) =
       setSessionTokens tDone dc toks st)"
  by (auto simp: callbackGitHub_def Let_def split: option.splits upstream.splits sum.splits)




lemma deviceSubmit_store:
  "fst (deviceSubmit cfg c code now tMark st) = st \<or>
   fst (deviceSubmit cfg c code now tMark st) = fst (deviceSubmitLocked now (normalizeCode code) st) \<or>
   (\<exists>dc. fst (deviceSubmit cfg c code now tMark st) =
       removeSession dc (fst (deviceSubmitLocked now (normalizeCode code) st))) \<or>
   (\<exists>dc m. fst (deviceSubmit cfg c code now tMark st) =
       markSession tMark dc ''error'' m (fst (deviceSubmitLocked now (normalizeCode code) st)))"
  by (auto simp: deviceSubmit_def split: prod.splits option.splits)

lemma deviceStart_store:
  "fst (deviceStart cfg c body tSweep now rDevice rUser rState st) = sessionCleanup tSweep st \<or>
   (\<exists>p. fst (deviceStart cfg c body tSweep now rDevice rUser rState st) =
      storeSession
        \<lparr>DeviceCode = generateDeviceCode rDevice, UserCode = generateUserCode rUser,
         NormalizedUserCode = normalizeCode (generateUserCode rUser), Provider = p,
         State = EncodeToString rState, Status = ''pending'', CreatedAt = now,
         ExpiresAt = now + 600, CompletedAt = 0, Tokens = None, Error = [], LastTouched = 0\<rparr>
        (sessionCleanup tSweep st))"
  by (auto simp: deviceStart_def Let_def deviceSessionTTL_def split: option.splits)



lemma length_responses: "length (responses cfg es st) = length es"
  by (induction es arbitrary: st) auto




subsection \<open>Polling a finished session\<close>






subsection \<open>Polling an expired pending session\<close>

text \<open>
  C3 does not hold of the code. The session of \<open>storePending\<close> is pending and expires at
  600; the poll at 600 answers 404 ``Unknown device code'' and not 410: the sweep at
  the start of \<open>devicePoll\<close> applies the same test \<open>expiresAt \<le> now\<close> and has removed the
  session before the handler looks it up.
\<close>

theorem poll_expired_pending_is_unknown:
  "map_of (deviceSessions storePending) device1 = Some session1 \<and>
   Status session1 = ''pending'' \<and> ExpiresAt session1 \<le> 600 \<and>
   devicePoll pollDevice1 600 600 600 storePending =
     (emptyStore, JSON 404 (detail ''Unknown device code''))"
  by code_simp


text \<open>
  In general a session whose \<open>expiresAt\<close> has passed at the sweep is answered with 404;
  the branch that answers 410 for a pending session is reached only when the clock
  passes \<open>expiresAt\<close> between the reading of the sweep and the reading of the handler.
\<close>

lemma poll_pending_swept:
  assumes "distinct (map fst (deviceSessions st))"
    and "map_of (deviceSessions st) k = Some s"
    and "ExpiresAt s \<le> tSweep"
  shows "snd (devicePoll (Some \<lparr>device_code = k\<rparr>) tSweep now tMark st) =
           JSON 404 (detail ''Unknown device code'')"
  using assms
  by (simp add: devicePoll_def getSessionCopy_def sweep_lookup sweepable_def Let_def)

lemma poll_pending_expiring:
  assumes "distinct (map fst (deviceSessions st))"
    and "map_of (deviceSessions st) k = Some s"
    and "Status s = ''pending''"
    and "tSweep < ExpiresAt s" and "ExpiresAt s \<le> now"
  shows "snd (devicePoll (Some \<lparr>device_code = k\<rparr>) tSweep now tMark st) =
           JSON 410 (detail ''Device authorization expired'') \<and>
         map_of (deviceSessions (fst (devicePoll (Some \<lparr>device_code = k\<rparr>) tSweep now tMark st))) k = None"
proof -
  have "\<not> sweepable tSweep s"
    using assms(3,4) by (simp add: sweepable_def Let_def)
  then have "getSessionCopy k (sessionCleanup tSweep st) = Some s"
    using assms(1,2) by (intro poll_survivor)
  then show ?thesis
    using assms(3,5) by (simp add: devicePoll_def Let_def removeSession_sessions)
qed


subsection \<open>Polling a session with an unrecognised status\<close>






subsection \<open>A start request with an unsupported provider\<close>




lemma sessionCleanup_keeps:
  "map_of (deviceSessions (sessionCleanup now st)) k = Some s \<Longrightarrow>
   map_of (deviceSessions st) k = Some s"
  by (simp add: sessionCleanup_sessions split: if_splits)








subsection \<open>Submitting an unknown or expired user code\<close>







subsection \<open>The expiry deadline\<close>

lemma deadline_markSession: "deadline (markSession now dc status message st) k = deadline st k"
  by (simp add: deadline_def markSession_sessions option.map_comp comp_def)

lemma deadline_setSessionTokens: "deadline (setSessionTokens now dc tokens st) k = deadline st k"
  by (simp add: deadline_def setSessionTokens_sessions option.map_comp comp_def)

lemma deadline_removeSession:
  "deadline (removeSession dc st) k = (if k = dc then None else deadline st k)"
  by (simp add: deadline_def removeSession_sessions)

lemma deadline_sessionCleanup:
  "deadline (sessionCleanup now st) k =
     (if k \<in> set (expiredCodes now st) then None else deadline st k)"
  by (simp add: deadline_def sessionCleanup_sessions)

lemma deadline_deviceSubmitLocked:
  "deadline (fst (deviceSubmitLocked now n st)) k = deadline st k"
  by (auto simp: deadline_def deviceSubmitLocked_def Let_def AList.update_conv' split: option.splits)

lemma deadline_storeSession:
  "deadline (storeSession s st) k =
     (if k = DeviceCode s then Some (CreatedAt s, ExpiresAt s) else deadline st k)"
  by (simp add: deadline_def storeSession_sessions)

lemmas deadline_simps =
  deadline_markSession deadline_setSessionTokens deadline_removeSession
  deadline_sessionCleanup deadline_deviceSubmitLocked deadline_storeSession

lemma handle_deadline:
  "deadline (fst (handle cfg e st)) k = None \<or>
   deadline (fst (handle cfg e st)) k = deadline st k \<or>
   createsCode k e \<and> (\<exists>now. deadline (fst (handle cfg e st)) k = Some (now, now + 600))"
proof (cases e)
  case (Start c body tSweep now rDevice rUser rState)
  then show ?thesis
    using deviceStart_store [of cfg c body tSweep now rDevice rUser rState st]
    by (auto simp: deadline_simps split: if_splits)
next
  case (Poll body tSweep now tMark)
  then show ?thesis
    using devicePoll_store [of body tSweep now tMark st]
    by (auto simp: deadline_simps split: if_splits)
next
  case (Submit c code now tMark)
  then show ?thesis
    using deviceSubmit_store [of cfg c code now tMark st]
    by (auto simp: deadline_simps split: if_splits)
next
  case (Google state code errorParam now tDone reply firebase)
  then show ?thesis
    using callbackGoogle_store [of state code errorParam now tDone reply firebase st]
    by (auto simp: deadline_simps split: if_splits)
next
  case (GitHub state code errorParam now tDone reply firebase)
  then show ?thesis
    using callbackGitHub_store [of state code errorParam now tDone reply firebase st]
    by (auto simp: deadline_simps split: if_splits)
qed

lemma run_snoc: "run cfg (es @ [e]) st = fst (handle cfg e (run cfg es st))"
  by (induction es arbitrary: st) auto

lemma run_deadline:
  "deadline (run cfg es emptyStore) k = Some (a, b) \<Longrightarrow> b = a + 600"
proof (induction es arbitrary: a b rule: rev_induct)
  case Nil
  then show ?case by (simp add: deadline_def emptyStore_def)
next
  case (snoc e es)
  show ?case
    using snoc.prems snoc.IH handle_deadline [of cfg e "run cfg es emptyStore" k]
    by (auto simp: run_snoc)
qed

lemma deviceStart_created:
  assumes "ToLower (provider req) = ''google'' \<or> ToLower (provider req) = ''github''"
    and "checkProvider cfg (ToLower (provider req)) = None"
  shows "deadline (fst (deviceStart cfg c (Some req) tSweep now rDevice rUser rState st))
           (generateDeviceCode rDevice) = Some (now, now + deviceSessionTTL)"
  using assms by (auto simp: deviceStart_def Let_def deadline_storeSession)


text \<open>
  C7: a start request that is accepted stores a session whose \<open>createdAt\<close> is the clock
  reading of the handler and whose \<open>expiresAt\<close> is \<open>createdAt + 600\<close>. After any request
  (start, poll, submit, either callback) the session under a device code is gone, or
  has the \<open>createdAt\<close> and \<open>expiresAt\<close> it had before, or is the session this very start
  request created (with \<open>expiresAt = createdAt + 600\<close>). The store operations on their
  own (status update, token attach, the touch inside the submission, removal, sweep)
  never change the two fields either. So in every store reached from the empty store
  every session has \<open>expiresAt = createdAt + 600\<close>: the deadline is never extended.
\<close>

theorem expiry_fixed_at_creation:
  "(isASCII (provider req) \<longrightarrow>
    (ToLower (provider req) = ''google'' \<or> ToLower (provider req) = ''github'') \<longrightarrow>
    checkProvider cfg (ToLower (provider req)) = None \<longrightarrow>
      deadline (fst (deviceStart cfg c (Some req) tSweep now rDevice rUser rState st))
        (generateDeviceCode rDevice) = Some (now, now + deviceSessionTTL)) \<and>
   deviceSessionTTL = 600 \<and>
   (deadline (fst (handle cfg e st)) k = None \<or>
    deadline (fst (handle cfg e st)) k = deadline st k \<or>
    createsCode k e \<and> (\<exists>t. deadline (fst (handle cfg e st)) k = Some (t, t + 600))) \<and>
   deadline (markSession tM dc status message st) k = deadline st k \<and>
   deadline (setSessionTokens tT dc tokens st) k = deadline st k \<and>
   deadline (fst (deviceSubmitLocked tL n st)) k = deadline st k \<and>
   deadline (removeSession dc st) k = (if k = dc then None else deadline st k) \<and>
   deadline (sessionCleanup tS st) k =
     (if k \<in> set (expiredCodes tS st) then None else deadline st k) \<and>
   (deadline (run cfg es emptyStore) k = Some (a, b) \<longrightarrow> b = a + 600)"
  using deviceStart_created [of req cfg c tSweep now rDevice rUser rState st]
    handle_deadline [of cfg e st k] run_deadline [of cfg es k a b]
  by (simp add: deadline_simps deviceSessionTTL_def)

theorem expiry_fixed_at_creation_witness:
  "isASCII (provider \<lparr>provider = ''Google''\<rparr>) \<and>
   ToLower (provider \<lparr>provider = ''Google''\<rparr>) = ''google'' \<and>
   checkProvider exampleConfig (ToLower (provider \<lparr>provider = ''Google''\<rparr>)) = None \<and>
   deadline (fst (deviceStart exampleConfig exampleContext (Some \<lparr>provider = ''Google''\<rparr>) 0 0
       rDevice1 rUser1 rState1 emptyStore)) (generateDeviceCode rDevice1) = Some (0, 600) \<and>
   deadline (run exampleConfig [startGoogle, submitCode, googleDone 20] emptyStore) device1 =
     Some (0, 600) \<and>
   (600 :: int) = 0 + 600"
proof -
  let ?req = "\<lparr>provider = ''Google''\<rparr>"
  have a: "isASCII (provider ?req)"
    by (simp add: isASCII_def)
  have g: "ToLower (provider ?req) = ''google''"
    by code_simp
  have p: "checkProvider exampleConfig (ToLower (provider ?req)) = None"
    by code_simp
  have r: "deadline (run exampleConfig [startGoogle, submitCode, googleDone 20] emptyStore) device1 =
     Some (0, 600)"
    by code_simp
  have t: "deviceSessionTTL = 600"
    by (simp add: deviceSessionTTL_def)
  have "deadline (fst (deviceStart exampleConfig exampleContext (Some ?req) 0 0
       rDevice1 rUser1 rState1 emptyStore)) (generateDeviceCode rDevice1) =
       Some (0, 0 + deviceSessionTTL)"
    using a g p
      expiry_fixed_at_creation [where req = ?req and cfg = exampleConfig and c = exampleContext
        and tSweep = 0 and now = 0 and rDevice = rDevice1 and rUser = rUser1 and rState = rState1
        and st = emptyStore]
    by blast
  moreover have "(600 :: int) = 0 + 600"
    using r expiry_fixed_at_creation [where cfg = exampleConfig
        and es = "[startGoogle, submitCode, googleDone 20]" and k = device1 and a = 0 and b = 600]
    by blast
  ultimately show ?thesis
    using a g p r t by simp
qed

subsection \<open>The state index\<close>

























subsection \<open>Uniqueness of the codes\<close>


lemma update_fresh: "k \<notin> set (map fst al) \<Longrightarrow> AList.update k v al = al @ [(k, v)]"
  by (induction al) auto



















end
